theory Spec2Isabelle
  imports Main "HOL-Library.AList"
begin

section \<open>Values\<close>

text \<open>
  \<^verbatim>\<open>JSON.parse\<close> returns any JSON value, whatever the declared type
  \<^verbatim>\<open>ICollection<T>\<close> says, so the operations are modelled on JSON values.
  An object is an association list read through \<open>map_of\<close>; the order of its keys is
  observed by no operation of the store. Numbers are opaque to the store apart from the
  test against zero, and are integers here. A string is the list of its code units, each
  below 256. Properties inherited from a prototype (\<^verbatim>\<open>constructor\<close>, the array
  methods as property values) are outside the model: a property is an own property.
\<close>

datatype json =
    JNull
  | JBool bool
  | JNum int
  | JStr string
  | JArr "json list"
  | JObj "(string \<times> json) list"

datatype exn =
    ErrnoException string
  | SyntaxError
  | TypeError

text \<open>The \<^verbatim>\<open>code\<close> property of a thrown value; only a system error carries one.\<close>

fun code :: "exn \<Rightarrow> string option" where
  "code (ErrnoException c) = Some c"
| "code SyntaxError = None"
| "code TypeError = None"

text \<open>JavaScript's conversion to a boolean, as used by \<^verbatim>\<open>if (x)\<close> and \<^verbatim>\<open>x ? a : b\<close>.\<close>

fun truthy :: "json \<Rightarrow> bool" where
  "truthy JNull = False"
| "truthy (JBool b) = b"
| "truthy (JNum n) = (n \<noteq> 0)"
| "truthy (JStr s) = (s \<noteq> [])"
| "truthy (JArr xs) = True"
| "truthy (JObj kvs) = True"

text \<open>A property read may give \<^verbatim>\<open>undefined\<close>, which is \<open>None\<close>; it is falsy.\<close>

fun truthy_opt :: "json option \<Rightarrow> bool" where
  "truthy_opt None = False"
| "truthy_opt (Some v) = truthy v"

text \<open>The decimal name of an array index.\<close>

fun index_key :: "nat \<Rightarrow> string" where
  "index_key n =
     (if n < 10 then [char_of (48 + n)]
      else index_key (n div 10) @ [char_of (48 + n mod 10)])"

declare index_key.simps [simp del]

text \<open>
  The own enumerable properties of a value, in order: what an object spread
  \<^verbatim>\<open>{...v}\<close> copies. \<^verbatim>\<open>null\<close>, numbers and booleans have none; an array and a
  string have their indices (\<^verbatim>\<open>length\<close> is not enumerable).
\<close>

fun own_props :: "json \<Rightarrow> (string \<times> json) list" where
  "own_props (JObj kvs) = kvs"
| "own_props (JArr xs) = zip (map index_key [0..<length xs]) xs"
| "own_props (JStr s) = zip (map index_key [0..<length s]) (map (\<lambda>c. JStr [c]) s)"
| "own_props JNull = []"
| "own_props (JBool b) = []"
| "own_props (JNum n) = []"

text \<open>
  The property read \<^verbatim>\<open>v[k]\<close>. On \<^verbatim>\<open>null\<close> it throws; the operations guard every read
  by a truthiness test, and the branch is there for totality.
\<close>

fun get_prop :: "json \<Rightarrow> string \<Rightarrow> exn + json option" where
  "get_prop JNull k = Inl TypeError"
| "get_prop (JArr xs) k =
     (if k = ''length'' then Inr (Some (JNum (int (length xs))))
      else Inr (map_of (own_props (JArr xs)) k))"
| "get_prop (JStr s) k =
     (if k = ''length'' then Inr (Some (JNum (int (length s))))
      else Inr (map_of (own_props (JStr s)) k))"
| "get_prop v k = Inr (map_of (own_props v) k)"

text \<open>
  \<^verbatim>\<open>{...base, ...props}\<close>: each property of \<open>props\<close> in turn is set on the copy
  of \<open>base\<close>, replacing the value of a key already there and adding a new key at the end.
\<close>

definition assign_props :: "(string \<times> json) list \<Rightarrow> (string \<times> json) list \<Rightarrow> (string \<times> json) list" where
  "assign_props base props = fold (\<lambda>(k, v). AList.update k v) props base"

text \<open>
  \<^verbatim>\<open>delete v[k]\<close> in strict code, giving the value as \<^verbatim>\<open>JSON.stringify\<close> then
  writes it. An index of an array becomes a hole, written as \<^verbatim>\<open>null\<close>; \<^verbatim>\<open>length\<close>
  and the indices of a string cannot be deleted.
\<close>

fun delete_prop :: "json \<Rightarrow> string \<Rightarrow> exn + json" where
  "delete_prop JNull k = Inl TypeError"
| "delete_prop (JObj kvs) k = Inr (JObj (AList.delete k kvs))"
| "delete_prop (JArr xs) k =
     (if k = ''length'' then Inl TypeError
      else case find (\<lambda>i. index_key i = k) [0..<length xs] of
             None \<Rightarrow> Inr (JArr xs)
           | Some i \<Rightarrow> Inr (JArr (xs[i := JNull])))"
| "delete_prop (JStr s) k =
     (if k = ''length'' \<or> k \<in> set (map index_key [0..<length s]) then Inl TypeError
      else Inr (JStr s))"
| "delete_prop v k = Inr v"

text \<open>
  The array spread \<^verbatim>\<open>[...v]\<close>: the elements of an array, the characters of a string, and
  a \<^verbatim>\<open>TypeError\<close> for a value that is not iterable.
\<close>

fun iterate :: "json \<Rightarrow> exn + json list" where
  "iterate (JArr xs) = Inr xs"
| "iterate (JStr s) = Inr (map (\<lambda>c. JStr [c]) s)"
| "iterate v = Inl TypeError"

text \<open>
  The callback \<^verbatim>\<open>(entity) => entity.id === id\<close>: reading \<^verbatim>\<open>id\<close> of \<^verbatim>\<open>null\<close> throws,
  and \<^verbatim>\<open>===\<close> against a string holds for that same string only.
\<close>

definition id_equals :: "string \<Rightarrow> json \<Rightarrow> exn + bool" where
  "id_equals ident entity =
     (case get_prop entity ''id'' of
        Inl e \<Rightarrow> Inl e
      | Inr v \<Rightarrow> Inr (v = Some (JStr ident)))"

text \<open>\<^verbatim>\<open>Array.prototype.find\<close>: the first element the callback accepts, or \<^verbatim>\<open>undefined\<close>.\<close>

fun array_find :: "(json \<Rightarrow> exn + bool) \<Rightarrow> json list \<Rightarrow> exn + json option" where
  "array_find p [] = Inr None"
| "array_find p (x # xs) =
     (case p x of
        Inl e \<Rightarrow> Inl e
      | Inr b \<Rightarrow> if b then Inr (Some x) else array_find p xs)"

text \<open>\<^verbatim>\<open>Array.prototype.findIndex\<close>, scanning from index \<open>i\<close>: the first index, or \<open>-1\<close>.\<close>

fun findIndex_from :: "nat \<Rightarrow> (json \<Rightarrow> exn + bool) \<Rightarrow> json list \<Rightarrow> exn + int" where
  "findIndex_from i p [] = Inr (- 1)"
| "findIndex_from i p (x # xs) =
     (case p x of
        Inl e \<Rightarrow> Inl e
      | Inr b \<Rightarrow> if b then Inr (int i) else findIndex_from (Suc i) p xs)"

definition array_findIndex :: "(json \<Rightarrow> exn + bool) \<Rightarrow> json list \<Rightarrow> exn + int" where
  "array_findIndex p xs = findIndex_from 0 p xs"

text \<open>\<^verbatim>\<open>xs.splice(i, 1)\<close> for an index inside the array: the array without that element.\<close>

definition splice1 :: "json list \<Rightarrow> int \<Rightarrow> json list" where
  "splice1 xs i = take (nat i) xs @ drop (Suc (nat i)) xs"

section \<open>The file\<close>

text \<open>
  The text of a file is identified with what \<^verbatim>\<open>JSON.parse\<close> makes of it: a value, or
  a syntax error. The file system either rejects a read with an error code
  (\<^verbatim>\<open>ENOENT\<close> when the file does not exist) or hands over the text.
\<close>

datatype utf8 = Malformed | Encoding json

datatype target = Rejects string | Contents utf8

datatype io = ReadFile | WriterWrite utf8

record disk =
  target :: target
  log :: "io list"

type_synonym 'a promise = "disk \<Rightarrow> (exn + 'a) \<times> disk"

definition resolve :: "'a \<Rightarrow> 'a promise" where
  "resolve a d = (Inr a, d)"

definition reject :: "exn \<Rightarrow> 'a promise" where
  "reject e d = (Inl e, d)"

definition settle :: "exn + 'a \<Rightarrow> 'a promise" where
  "settle r d = (r, d)"

text \<open>\<^verbatim>\<open>const a = await m; k a\<close>: a rejection of \<open>m\<close> is thrown on and \<open>k\<close> does not run.\<close>

definition await :: "'a promise \<Rightarrow> ('a \<Rightarrow> 'b promise) \<Rightarrow> 'b promise" where
  "await m k d =
     (case m d of
        (Inl e, d') \<Rightarrow> (Inl e, d')
      | (Inr a, d') \<Rightarrow> k a d')"

text \<open>
  Modelled from the spec: \<^verbatim>\<open>readFile\<close> of \<^verbatim>\<open>fs/promises\<close> is a collaborator outside
  the repository; it reads the entire file as text and signals file-not-found distinctly
  from other errors. Every call is recorded in the log.
\<close>

definition readFile :: "utf8 promise" where
  "readFile d =
     (case target d of
        Rejects c \<Rightarrow> (Inl (ErrnoException c), d\<lparr>log := log d @ [ReadFile]\<rparr>)
      | Contents t \<Rightarrow> (Inr t, d\<lparr>log := log d @ [ReadFile]\<rparr>))"

text \<open>
  Modelled from the spec: \<^verbatim>\<open>Writer.write\<close> of \<^verbatim>\<open>steno\<close> is a collaborator outside
  the repository; it replaces the file's entire contents. Every call is recorded in the
  log. One operation runs at a time: the queueing of writes in flight is not modelled.
\<close>

definition Writer_write :: "utf8 \<Rightarrow> unit promise" where
  "Writer_write t d = (Inr (), d\<lparr>target := Contents t, log := log d @ [WriterWrite t]\<rparr>)"

text \<open>
  Modelled from the spec: \<^verbatim>\<open>JSON.parse\<close> and \<^verbatim>\<open>JSON.stringify\<close> are the text codec,
  a collaborator outside the repository, taken as loss-free: parsing what was stringified
  gives the value back, and a text that is not JSON raises a \<^verbatim>\<open>SyntaxError\<close>.
\<close>

fun parse :: "utf8 \<Rightarrow> exn + json" where
  "parse Malformed = Inl SyntaxError"
| "parse (Encoding v) = Inr v"

definition stringify :: "json \<Rightarrow> utf8" where
  "stringify v = Encoding v"

subsection \<open>\<^verbatim>\<open>AsyncJSONFile\<close>\<close>

definition AsyncJSONFile_read :: "json promise" where
  "AsyncJSONFile_read d =
     (case await readFile (\<lambda>t. settle (parse t)) d of
        (Inl e, d') \<Rightarrow>
          if code e = Some ''ENOENT'' then (Inr JNull, d') else (Inl e, d')
      | (Inr v, d') \<Rightarrow> (Inr v, d'))"

definition AsyncJSONFile_write :: "json \<Rightarrow> unit promise" where
  "AsyncJSONFile_write data = Writer_write (stringify data)"

record store =
  collection :: string


section \<open>\<^verbatim>\<open>SimpleDB\<close>\<close>

text \<open>
  \<^verbatim>\<open>allEntities ? allEntities[this.collection] : null\<close>: the second component is
  \<^verbatim>\<open>null\<close> for a falsy document and may be \<^verbatim>\<open>undefined\<close> for a truthy one.
\<close>

definition SimpleDB_getEntitiesState :: "store \<Rightarrow> (json \<times> json option) promise" where
  "SimpleDB_getEntitiesState s =
     await AsyncJSONFile_read (\<lambda>allEntities.
       await (settle (if truthy allEntities then get_prop allEntities (collection s)
                      else Inr (Some JNull))) (\<lambda>collectionEntities.
         resolve (allEntities, collectionEntities)))"

definition SimpleDB_writeEntitiesState :: "store \<Rightarrow> json \<Rightarrow> unit promise" where
  "SimpleDB_writeEntitiesState s entities = AsyncJSONFile_write entities"

definition SimpleDB_create :: "store \<Rightarrow> json \<Rightarrow> json promise" where
  "SimpleDB_create s newEntity =
     await (SimpleDB_getEntitiesState s) (\<lambda>(allEntities, collectionEntities).
       await (settle (case collectionEntities of
                        None \<Rightarrow> Inr [newEntity]
                      | Some c \<Rightarrow>
                          if truthy c then map_sum id (\<lambda>xs. xs @ [newEntity]) (iterate c)
                          else Inr [newEntity])) (\<lambda>entries.
         let newEntities =
               JObj (AList.update (collection s) (JArr entries) (own_props allEntities))
         in await (SimpleDB_writeEntitiesState s newEntities) (\<lambda>_.
              resolve newEntity)))"

definition SimpleDB_getAll :: "store \<Rightarrow> json promise" where
  "SimpleDB_getAll s =
     await (SimpleDB_getEntitiesState s) (\<lambda>(_, entities).
       resolve (case entities of
                  None \<Rightarrow> JArr []
                | Some JNull \<Rightarrow> JArr []
                | Some v \<Rightarrow> v))"

text \<open>
  A truthy value that is not an array has no \<^verbatim>\<open>find\<close> or \<^verbatim>\<open>findIndex\<close> method:
  the call throws a \<^verbatim>\<open>TypeError\<close>.
\<close>

definition SimpleDB_getByID :: "store \<Rightarrow> string \<Rightarrow> json option promise" where
  "SimpleDB_getByID s ident =
     await (SimpleDB_getEntitiesState s) (\<lambda>(_, entities).
       if truthy_opt entities then
         (case entities of
            Some (JArr xs) \<Rightarrow> settle (array_find (id_equals ident) xs)
          | _ \<Rightarrow> reject TypeError)
       else resolve None)"

text \<open>
  \<^verbatim>\<open>update\<close> returns \<^verbatim>\<open>null\<close>, here \<open>JNull\<close>, when there is nothing to update. The
  index given by \<^verbatim>\<open>findIndex\<close>, when not \<open>-1\<close>, is inside the array.
\<close>

definition SimpleDB_update :: "store \<Rightarrow> string \<Rightarrow> json \<Rightarrow> json promise" where
  "SimpleDB_update s ident updatedEntity =
     await (SimpleDB_getEntitiesState s) (\<lambda>(allEntities, collectionEntities).
       if \<not> truthy_opt collectionEntities then resolve JNull
       else
         (case collectionEntities of
            Some (JArr xs) \<Rightarrow>
              await (settle (array_findIndex (id_equals ident) xs)) (\<lambda>entityIndex.
                if entityIndex = - 1 then resolve JNull
                else
                  let updated =
                        JObj (assign_props (own_props (xs ! nat entityIndex))
                                (own_props updatedEntity));
                      xs' = xs[nat entityIndex := updated];
                      updatedEntities =
                        JObj (AList.update (collection s) (JArr xs') (own_props allEntities))
                  in await (SimpleDB_writeEntitiesState s updatedEntities) (\<lambda>_.
                       resolve updated))
          | _ \<Rightarrow> reject TypeError))"

definition SimpleDB_delete :: "store \<Rightarrow> string \<Rightarrow> bool promise" where
  "SimpleDB_delete s ident =
     await (SimpleDB_getEntitiesState s) (\<lambda>(allEntities, collectionEntities).
       if \<not> truthy_opt collectionEntities then resolve False
       else
         (case collectionEntities of
            Some (JArr xs) \<Rightarrow>
              await (settle (array_findIndex (id_equals ident) xs)) (\<lambda>entityIndex.
                if entityIndex = - 1 then resolve False
                else
                  let xs' = splice1 xs entityIndex;
                      updatedEntities =
                        JObj (AList.update (collection s) (JArr xs') (own_props allEntities))
                  in await (SimpleDB_writeEntitiesState s updatedEntities) (\<lambda>_.
                       resolve True))
          | _ \<Rightarrow> reject TypeError))"

definition SimpleDB_getEntities :: "store \<Rightarrow> json promise" where
  "SimpleDB_getEntities s = AsyncJSONFile_read"

definition SimpleDB_deleteEntities :: "store \<Rightarrow> json \<Rightarrow> bool promise" where
  "SimpleDB_deleteEntities s entities =
     await (settle (delete_prop entities (collection s))) (\<lambda>entities'.
       await (AsyncJSONFile_write entities') (\<lambda>_.
         resolve True))"

definition SimpleDB_deleteCollection :: "store \<Rightarrow> bool promise" where
  "SimpleDB_deleteCollection s =
     await (SimpleDB_getEntities s) (\<lambda>entities.
       if truthy entities then SimpleDB_deleteEntities s entities
       else resolve False)"

section \<open>\<^verbatim>\<open>AsyncJSONFileBasedDB\<close>\<close>

text \<open>\<^verbatim>\<open>entities[this.collection] ?? null\<close>: \<^verbatim>\<open>undefined\<close> becomes \<^verbatim>\<open>null\<close>.\<close>

definition AsyncJSONFileBasedDB_getCollectionData :: "store \<Rightarrow> json promise" where
  "AsyncJSONFileBasedDB_getCollectionData s =
     await AsyncJSONFile_read (\<lambda>entities.
       if truthy entities then
         await (settle (get_prop entities (collection s))) (\<lambda>v.
           resolve (case v of None \<Rightarrow> JNull | Some c \<Rightarrow> c))
       else resolve JNull)"

definition AsyncJSONFileBasedDB_initializeDB :: "store \<Rightarrow> unit promise" where
  "AsyncJSONFileBasedDB_initializeDB s = AsyncJSONFile_write (JObj [])"

definition AsyncJSONFileBasedDB_create :: "store \<Rightarrow> json \<Rightarrow> json promise" where
  "AsyncJSONFileBasedDB_create s newEntity =
     await AsyncJSONFile_read (\<lambda>allEntities.
       await (AsyncJSONFileBasedDB_getCollectionData s) (\<lambda>collectionEntities.
         await (settle
                  (if truthy allEntities then
                     if truthy collectionEntities then
                       map_sum id
                         (\<lambda>xs. JObj (AList.update (collection s) (JArr (xs @ [newEntity]))
                                       (own_props allEntities)))
                         (iterate collectionEntities)
                     else
                       Inr (JObj (AList.update (collection s) (JArr [newEntity])
                                    (own_props allEntities)))
                   else Inr (JObj [(collection s, JArr [newEntity])]))) (\<lambda>newEntities.
           await (AsyncJSONFile_write newEntities) (\<lambda>_.
             resolve newEntity))))"

definition AsyncJSONFileBasedDB_getAll :: "store \<Rightarrow> json promise" where
  "AsyncJSONFileBasedDB_getAll s =
     await (AsyncJSONFileBasedDB_getCollectionData s) (\<lambda>entities.
       resolve (case entities of JNull \<Rightarrow> JArr [] | v \<Rightarrow> v))"

definition AsyncJSONFileBasedDB_getByID :: "store \<Rightarrow> string \<Rightarrow> json option promise" where
  "AsyncJSONFileBasedDB_getByID s ident =
     await (AsyncJSONFileBasedDB_getCollectionData s) (\<lambda>entities.
       if truthy entities then
         (case entities of
            JArr xs \<Rightarrow> settle (array_find (id_equals ident) xs)
          | _ \<Rightarrow> reject TypeError)
       else resolve None)"

text \<open>
  \<^verbatim>\<open>update\<close> and \<^verbatim>\<open>delete\<close> read the file a second time, after the scan, to get the
  whole document.
\<close>

definition AsyncJSONFileBasedDB_update :: "store \<Rightarrow> string \<Rightarrow> json \<Rightarrow> json promise" where
  "AsyncJSONFileBasedDB_update s ident updatedEntity =
     await (AsyncJSONFileBasedDB_getCollectionData s) (\<lambda>entities.
       if truthy entities then
         (case entities of
            JArr xs \<Rightarrow>
              await (settle (array_findIndex (id_equals ident) xs)) (\<lambda>entityIndex.
                if entityIndex = - 1 then resolve JNull
                else
                  let updated =
                        JObj (assign_props (own_props (xs ! nat entityIndex))
                                (own_props updatedEntity));
                      xs' = xs[nat entityIndex := updated]
                  in await AsyncJSONFile_read (\<lambda>allEntities.
                       let updatedEntities =
                             (if truthy allEntities then
                                JObj (AList.update (collection s) (JArr xs')
                                        (own_props allEntities))
                              else JObj [(collection s, JArr xs')])
                       in await (AsyncJSONFile_write updatedEntities) (\<lambda>_.
                            resolve updated)))
          | _ \<Rightarrow> reject TypeError)
       else resolve JNull)"

definition AsyncJSONFileBasedDB_delete :: "store \<Rightarrow> string \<Rightarrow> bool promise" where
  "AsyncJSONFileBasedDB_delete s ident =
     await (AsyncJSONFileBasedDB_getCollectionData s) (\<lambda>entities.
       if truthy entities then
         (case entities of
            JArr xs \<Rightarrow>
              await (settle (array_findIndex (id_equals ident) xs)) (\<lambda>entityIndex.
                if entityIndex = - 1 then resolve False
                else
                  let xs' = splice1 xs entityIndex
                  in await AsyncJSONFile_read (\<lambda>allEntities.
                       let updatedEntities =
                             (if truthy allEntities then
                                JObj (AList.update (collection s) (JArr xs')
                                        (own_props allEntities))
                              else JObj [(collection s, JArr xs')])
                       in await (AsyncJSONFile_write updatedEntities) (\<lambda>_.
                            resolve True)))
          | _ \<Rightarrow> reject TypeError)
       else resolve False)"

section \<open>Observing a run\<close>

text \<open>What \<^verbatim>\<open>AsyncJSONFile.read\<close> gives for each state of the target.\<close>

fun decode :: "target \<Rightarrow> exn + json" where
  "decode (Rejects c) = (if c = ''ENOENT'' then Inr JNull else Inl (ErrnoException c))"
| "decode (Contents t) = parse t"

text \<open>The number of reads and of writes recorded in a log.\<close>

definition reads_of :: "io list \<Rightarrow> nat" where
  "reads_of l = length (filter (\<lambda>e. e = ReadFile) l)"

definition writes_of :: "io list \<Rightarrow> nat" where
  "writes_of l = length (filter (\<lambda>e. e \<noteq> ReadFile) l)"


text \<open>
  The log only grows: what a run from \<open>d\<close> to \<open>d'\<close> did is what it appended, and
  \<open>tally m d\<close> gives the numbers of reads and of writes of the run of \<open>m\<close> from \<open>d\<close>.
\<close>

definition performed :: "disk \<Rightarrow> disk \<Rightarrow> io list" where
  "performed d d' = drop (length (log d)) (log d')"


section \<open>Reading and writing\<close>

lemma AsyncJSONFile_read_eq:
  "AsyncJSONFile_read d = (decode (target d), d\<lparr>log := log d @ [ReadFile]\<rparr>)"
proof (cases "target d")
  case (Rejects c)
  then show ?thesis
    by (simp add: AsyncJSONFile_read_def await_def readFile_def)
next
  case (Contents t)
  then show ?thesis
    by (cases t) (simp_all add: AsyncJSONFile_read_def await_def readFile_def settle_def)
qed

lemma AsyncJSONFile_write_eq:
  "AsyncJSONFile_write v d =
     (Inr (), d\<lparr>target := Contents (Encoding v), log := log d @ [WriterWrite (Encoding v)]\<rparr>)"
  by (simp add: AsyncJSONFile_write_def Writer_write_def stringify_def)

lemma map_sum_Inr_iff: "map_sum id g x = Inr y \<longleftrightarrow> (\<exists>z. x = Inr z \<and> y = g z)"
  by (cases x) auto

lemma falsy_own_props: "\<not> truthy v \<Longrightarrow> own_props v = []"
  by (cases v) auto

lemmas io_defs = await_def settle_def resolve_def reject_def AsyncJSONFile_read_eq
  AsyncJSONFile_write_eq SimpleDB_writeEntitiesState_def SimpleDB_getEntities_def

lemma SimpleDB_getEntitiesState_eq:
  "SimpleDB_getEntitiesState s d =
     (case decode (target d) of
        Inl e \<Rightarrow> Inl e
      | Inr a \<Rightarrow> if truthy a then
                   (case get_prop a (collection s) of
                      Inl e \<Rightarrow> Inl e
                    | Inr c \<Rightarrow> Inr (a, c))
                 else Inr (a, Some JNull),
      d\<lparr>log := log d @ [ReadFile]\<rparr>)"
  by (auto simp: SimpleDB_getEntitiesState_def io_defs split: sum.splits)

lemma getCollectionData_eq:
  "AsyncJSONFileBasedDB_getCollectionData s d =
     (case decode (target d) of
        Inl e \<Rightarrow> Inl e
      | Inr a \<Rightarrow> if truthy a then
                   (case get_prop a (collection s) of
                      Inl e \<Rightarrow> Inl e
                    | Inr None \<Rightarrow> Inr JNull
                    | Inr (Some c) \<Rightarrow> Inr c)
                 else Inr JNull,
      d\<lparr>log := log d @ [ReadFile]\<rparr>)"
  by (auto simp: AsyncJSONFileBasedDB_getCollectionData_def io_defs
           split: sum.splits option.splits)

lemmas op_defs = SimpleDB_create_def SimpleDB_getAll_def SimpleDB_getByID_def
  SimpleDB_update_def SimpleDB_delete_def SimpleDB_deleteCollection_def
  SimpleDB_deleteEntities_def
  AsyncJSONFileBasedDB_create_def AsyncJSONFileBasedDB_getAll_def
  AsyncJSONFileBasedDB_getByID_def AsyncJSONFileBasedDB_update_def
  AsyncJSONFileBasedDB_delete_def
  SimpleDB_getEntitiesState_eq getCollectionData_eq

section \<open>A missing file\<close>

text \<open>
  Claim C7. When the file does not exist, the read operations succeed in both variants:
  \<^verbatim>\<open>getAll\<close> returns the empty array and \<^verbatim>\<open>getByID\<close> returns \<^verbatim>\<open>undefined\<close>, for
  every id.
\<close>

theorem missing_file_reads_empty:
  assumes "target d = Rejects ''ENOENT''"
  shows "fst (SimpleDB_getAll s d) = Inr (JArr [])
       \<and> fst (SimpleDB_getByID s ident d) = Inr None
       \<and> fst (AsyncJSONFileBasedDB_getAll s d) = Inr (JArr [])
       \<and> fst (AsyncJSONFileBasedDB_getByID s ident d) = Inr None"
  using assms by (simp add: op_defs io_defs)

theorem missing_file_reads_empty_witness:
  "fst (SimpleDB_getAll \<lparr>collection = ''users''\<rparr>
          \<lparr>target = Rejects ''ENOENT'', log = []\<rparr>) = Inr (JArr [])
   \<and> fst (SimpleDB_getByID \<lparr>collection = ''users''\<rparr> ''7''
          \<lparr>target = Rejects ''ENOENT'', log = []\<rparr>) = Inr None
   \<and> fst (AsyncJSONFileBasedDB_getAll \<lparr>collection = ''users''\<rparr>
          \<lparr>target = Rejects ''ENOENT'', log = []\<rparr>) = Inr (JArr [])
   \<and> fst (AsyncJSONFileBasedDB_getByID \<lparr>collection = ''users''\<rparr> ''7''
          \<lparr>target = Rejects ''ENOENT'', log = []\<rparr>) = Inr None"
  using missing_file_reads_empty
          [of "\<lparr>target = Rejects ''ENOENT'', log = []\<rparr>" "\<lparr>collection = ''users''\<rparr>" "''7''"]
  by simp

section \<open>Failures of the read\<close>

text \<open>
  Claim C8. A read rejected with a code other than \<^verbatim>\<open>ENOENT\<close>, and a text that does
  not parse, are thrown on unchanged by every operation of both variants: the operation
  rejects with that same error after a single read, writes nothing, and does not go on as
  if the document were empty.
\<close>

theorem read_failure_propagates:
  assumes "(target d = Rejects c \<and> c \<noteq> ''ENOENT'' \<and> e = ErrnoException c)
         \<or> (target d = Contents Malformed \<and> e = SyntaxError)"
  shows "SimpleDB_create s ne d = (Inl e, d\<lparr>log := log d @ [ReadFile]\<rparr>)
       \<and> SimpleDB_getAll s d = (Inl e, d\<lparr>log := log d @ [ReadFile]\<rparr>)
       \<and> SimpleDB_getByID s i d = (Inl e, d\<lparr>log := log d @ [ReadFile]\<rparr>)
       \<and> SimpleDB_update s i p d = (Inl e, d\<lparr>log := log d @ [ReadFile]\<rparr>)
       \<and> SimpleDB_delete s i d = (Inl e, d\<lparr>log := log d @ [ReadFile]\<rparr>)
       \<and> SimpleDB_deleteCollection s d = (Inl e, d\<lparr>log := log d @ [ReadFile]\<rparr>)
       \<and> AsyncJSONFileBasedDB_create s ne d = (Inl e, d\<lparr>log := log d @ [ReadFile]\<rparr>)
       \<and> AsyncJSONFileBasedDB_getAll s d = (Inl e, d\<lparr>log := log d @ [ReadFile]\<rparr>)
       \<and> AsyncJSONFileBasedDB_getByID s i d = (Inl e, d\<lparr>log := log d @ [ReadFile]\<rparr>)
       \<and> AsyncJSONFileBasedDB_update s i p d = (Inl e, d\<lparr>log := log d @ [ReadFile]\<rparr>)
       \<and> AsyncJSONFileBasedDB_delete s i d = (Inl e, d\<lparr>log := log d @ [ReadFile]\<rparr>)"
  using assms by (auto simp: op_defs io_defs)

theorem read_failure_propagates_witness:
  "SimpleDB_update \<lparr>collection = ''users''\<rparr> ''7'' (JObj [(''name'', JStr ''n'')])
     \<lparr>target = Rejects ''EACCES'', log = []\<rparr>
   = (Inl (ErrnoException ''EACCES''), \<lparr>target = Rejects ''EACCES'', log = [ReadFile]\<rparr>)
   \<and> AsyncJSONFileBasedDB_create \<lparr>collection = ''users''\<rparr> (JObj [(''id'', JStr ''7'')])
        \<lparr>target = Contents Malformed, log = []\<rparr>
   = (Inl SyntaxError, \<lparr>target = Contents Malformed, log = [ReadFile]\<rparr>)"
  using read_failure_propagates
          [of "\<lparr>target = Rejects ''EACCES'', log = []\<rparr>" "''EACCES''" "ErrnoException ''EACCES''"
              "\<lparr>collection = ''users''\<rparr>" _ "''7''" "JObj [(''name'', JStr ''n'')]"]
        read_failure_propagates
          [of "\<lparr>target = Contents Malformed, log = []\<rparr>" _ SyntaxError
              "\<lparr>collection = ''users''\<rparr>" "JObj [(''id'', JStr ''7'')]"]
  by simp

section \<open>A falsy document\<close>

text \<open>
  Claim C9. If the file holds one of the texts \<^verbatim>\<open>null\<close>, \<^verbatim>\<open>false\<close>, \<^verbatim>\<open>0\<close> or
  \<^verbatim>\<open>""\<close>, every operation of both variants does what it does when the file is missing,
  and none throws: \<^verbatim>\<open>getAll\<close> returns the empty array, \<^verbatim>\<open>getByID\<close> returns
  \<^verbatim>\<open>undefined\<close>, \<^verbatim>\<open>update\<close> returns \<^verbatim>\<open>null\<close>, \<^verbatim>\<open>delete\<close> and
  \<^verbatim>\<open>deleteCollection\<close> return \<^verbatim>\<open>false\<close>, all after one read and no write, and
  \<^verbatim>\<open>create\<close> writes the same document.
\<close>

theorem falsy_document_as_missing:
  assumes "v \<in> {JNull, JBool False, JNum 0, JStr []}"
    and "target d = Contents (Encoding v)"
    and "a = d\<lparr>target := Rejects ''ENOENT''\<rparr>"
  shows "SimpleDB_getAll s d = (Inr (JArr []), d\<lparr>log := log d @ [ReadFile]\<rparr>)
       \<and> SimpleDB_getAll s a = (Inr (JArr []), a\<lparr>log := log d @ [ReadFile]\<rparr>)
       \<and> SimpleDB_getByID s i d = (Inr None, d\<lparr>log := log d @ [ReadFile]\<rparr>)
       \<and> SimpleDB_getByID s i a = (Inr None, a\<lparr>log := log d @ [ReadFile]\<rparr>)
       \<and> SimpleDB_update s i p d = (Inr JNull, d\<lparr>log := log d @ [ReadFile]\<rparr>)
       \<and> SimpleDB_update s i p a = (Inr JNull, a\<lparr>log := log d @ [ReadFile]\<rparr>)
       \<and> SimpleDB_delete s i d = (Inr False, d\<lparr>log := log d @ [ReadFile]\<rparr>)
       \<and> SimpleDB_delete s i a = (Inr False, a\<lparr>log := log d @ [ReadFile]\<rparr>)
       \<and> SimpleDB_deleteCollection s d = (Inr False, d\<lparr>log := log d @ [ReadFile]\<rparr>)
       \<and> SimpleDB_deleteCollection s a = (Inr False, a\<lparr>log := log d @ [ReadFile]\<rparr>)
       \<and> SimpleDB_create s ne d = SimpleDB_create s ne a
       \<and> AsyncJSONFileBasedDB_getAll s d = (Inr (JArr []), d\<lparr>log := log d @ [ReadFile]\<rparr>)
       \<and> AsyncJSONFileBasedDB_getAll s a = (Inr (JArr []), a\<lparr>log := log d @ [ReadFile]\<rparr>)
       \<and> AsyncJSONFileBasedDB_getByID s i d = (Inr None, d\<lparr>log := log d @ [ReadFile]\<rparr>)
       \<and> AsyncJSONFileBasedDB_getByID s i a = (Inr None, a\<lparr>log := log d @ [ReadFile]\<rparr>)
       \<and> AsyncJSONFileBasedDB_update s i p d = (Inr JNull, d\<lparr>log := log d @ [ReadFile]\<rparr>)
       \<and> AsyncJSONFileBasedDB_update s i p a = (Inr JNull, a\<lparr>log := log d @ [ReadFile]\<rparr>)
       \<and> AsyncJSONFileBasedDB_delete s i d = (Inr False, d\<lparr>log := log d @ [ReadFile]\<rparr>)
       \<and> AsyncJSONFileBasedDB_delete s i a = (Inr False, a\<lparr>log := log d @ [ReadFile]\<rparr>)
       \<and> AsyncJSONFileBasedDB_create s ne d = AsyncJSONFileBasedDB_create s ne a"
proof -
  from assms(1) have f: "\<not> truthy v" by auto
  show ?thesis
    using f assms(2,3) by (simp add: op_defs io_defs falsy_own_props)
qed

theorem falsy_document_as_missing_witness:
  "SimpleDB_getAll \<lparr>collection = ''users''\<rparr>
     \<lparr>target = Contents (Encoding (JNum 0)), log = []\<rparr>
   = (Inr (JArr []), \<lparr>target = Contents (Encoding (JNum 0)), log = [ReadFile]\<rparr>)
   \<and> SimpleDB_deleteCollection \<lparr>collection = ''users''\<rparr>
        \<lparr>target = Contents (Encoding (JNum 0)), log = []\<rparr>
   = (Inr False, \<lparr>target = Contents (Encoding (JNum 0)), log = [ReadFile]\<rparr>)
   \<and> AsyncJSONFileBasedDB_update \<lparr>collection = ''users''\<rparr> ''7'' (JObj [])
        \<lparr>target = Contents (Encoding (JNum 0)), log = []\<rparr>
   = (Inr JNull, \<lparr>target = Contents (Encoding (JNum 0)), log = [ReadFile]\<rparr>)"
  using falsy_document_as_missing
          [of "JNum 0" "\<lparr>target = Contents (Encoding (JNum 0)), log = []\<rparr>"
              "\<lparr>target = Rejects ''ENOENT'', log = []\<rparr>"
              "\<lparr>collection = ''users''\<rparr>" "''7''" "JObj []"]
  by simp

section \<open>Counting reads and writes\<close>

lemma reads_of_simps [simp]:
  "reads_of [] = 0" "reads_of (ReadFile # l) = Suc (reads_of l)"
  "reads_of (WriterWrite w # l) = reads_of l"
  by (simp_all add: reads_of_def)

lemma writes_of_simps [simp]:
  "writes_of [] = 0" "writes_of (ReadFile # l) = writes_of l"
  "writes_of (WriterWrite w # l) = Suc (writes_of l)"
  by (simp_all add: writes_of_def)








section \<open>Scanning a collection\<close>

lemma findIndex_from_first:
  "\<forall>e\<in>set pre. p e = Inr False \<Longrightarrow> p r = Inr True \<Longrightarrow>
   findIndex_from n p (pre @ r # post) = Inr (int (n + length pre))"
  by (induction pre arbitrary: n) simp_all

lemma array_findIndex_first:
  "\<forall>e\<in>set pre. p e = Inr False \<Longrightarrow> p r = Inr True \<Longrightarrow>
   array_findIndex p (pre @ r # post) = Inr (int (length pre))"
  using findIndex_from_first [of pre p r 0 post] by (simp add: array_findIndex_def)

lemma findIndex_from_found:
  "findIndex_from n p xs = Inr i \<Longrightarrow> i \<noteq> - 1 \<Longrightarrow>
   \<exists>pre r post. xs = pre @ r # post \<and> (\<forall>e\<in>set pre. p e = Inr False) \<and> p r = Inr True"
proof (induction xs arbitrary: n)
  case Nil
  then show ?case by simp
next
  case (Cons x xs)
  show ?case
  proof (cases "p x")
    case (Inl e)
    with Cons.prems show ?thesis by simp
  next
    case (Inr b)
    show ?thesis
    proof (cases b)
      case True
      with Inr show ?thesis by (intro exI [of _ "[]"] exI [of _ x] exI [of _ xs]) simp
    next
      case False
      with Inr Cons.prems have "findIndex_from (Suc n) p xs = Inr i" by simp
      from Cons.IH [OF this Cons.prems(2)] obtain pre r post where
        h: "xs = pre @ r # post" "\<forall>e\<in>set pre. p e = Inr False" "p r = Inr True"
        by blast
      with Inr False show ?thesis
        by (intro exI [of _ "x # pre"] exI [of _ r] exI [of _ post]) simp
    qed
  qed
qed

lemma array_findIndex_found:
  "array_findIndex p xs = Inr i \<Longrightarrow> i \<noteq> - 1 \<Longrightarrow>
   \<exists>pre r post. xs = pre @ r # post \<and> (\<forall>e\<in>set pre. p e = Inr False) \<and> p r = Inr True"
  using findIndex_from_found [of 0 p xs i] by (simp add: array_findIndex_def)



lemma array_find_first:
  "\<forall>e\<in>set pre. p e = Inr False \<Longrightarrow> p r = Inr True \<Longrightarrow>
   array_find p (pre @ r # post) = Inr (Some r)"
  by (induction pre) simp_all

lemma array_find_none:
  "\<forall>e\<in>set xs. p e = Inr False \<Longrightarrow> array_find p xs = Inr None"
  by (induction xs) simp_all

lemma splice1_first: "splice1 (pre @ r # post) (int (length pre)) = pre @ post"
  by (simp add: splice1_def)

lemma assign_props_other:
  "k \<notin> fst ` set props \<Longrightarrow> map_of (assign_props base props) k = map_of base k"
  unfolding assign_props_def
  by (induction props arbitrary: base) (auto simp: update_conv')

lemma get_prop_id_own:
  "get_prop v ''id'' = Inr x \<Longrightarrow> map_of (own_props v) ''id'' = x"
  by (cases v) auto

lemma id_equals_True: "id_equals ident r = Inr True \<longleftrightarrow> get_prop r ''id'' = Inr (Some (JStr ident))"
  by (auto simp: id_equals_def split: sum.splits)

lemma merged_id:
  assumes "map_of (own_props p) ''id'' = None" and "id_equals ident r = Inr True"
  shows "get_prop (JObj (assign_props (own_props r) (own_props p))) ''id'' = Inr (Some (JStr ident))"
proof -
  from assms(1) have "''id'' \<notin> fst ` set (own_props p)"
    by (simp add: map_of_eq_None_iff)
  then have "map_of (assign_props (own_props r) (own_props p)) ''id'' = map_of (own_props r) ''id''"
    by (rule assign_props_other)
  also from assms(2) have "\<dots> = Some (JStr ident)"
    by (simp add: id_equals_True get_prop_id_own)
  finally show ?thesis by simp
qed

lemma undefined_to_null_arr:
  "(case v of None \<Rightarrow> JNull | Some c \<Rightarrow> c) = JArr xs \<longleftrightarrow> v = Some (JArr xs)"
  by (cases v) auto

text \<open>
What the operations do when the first match in the collection is known.
\<close>

lemma SimpleDB_update_first:
  assumes "decode (target d) = Inr a" and "truthy a"
    and "get_prop a (collection s) = Inr (Some (JArr (pre @ r # post)))"
    and "\<forall>e\<in>set pre. id_equals ident e = Inr False"
    and "id_equals ident r = Inr True"
    and "u = JObj (assign_props (own_props r) (own_props p))"
    and "w = JObj (AList.update (collection s) (JArr (pre @ u # post)) (own_props a))"
  shows "SimpleDB_update s ident p d =
           (Inr u, d\<lparr>target := Contents (Encoding w),
                      log := log d @ [ReadFile, WriterWrite (Encoding w)]\<rparr>)"
  using assms
  by (simp add: op_defs io_defs Let_def array_findIndex_first [of pre "id_equals ident" r post])

lemma AsyncJSONFileBasedDB_update_first:
  assumes "decode (target d) = Inr a" and "truthy a"
    and "get_prop a (collection s) = Inr (Some (JArr (pre @ r # post)))"
    and "\<forall>e\<in>set pre. id_equals ident e = Inr False"
    and "id_equals ident r = Inr True"
    and "u = JObj (assign_props (own_props r) (own_props p))"
    and "w = JObj (AList.update (collection s) (JArr (pre @ u # post)) (own_props a))"
  shows "AsyncJSONFileBasedDB_update s ident p d =
           (Inr u, d\<lparr>target := Contents (Encoding w),
                      log := log d @ [ReadFile, ReadFile, WriterWrite (Encoding w)]\<rparr>)"
  using assms
  by (simp add: op_defs io_defs Let_def array_findIndex_first [of pre "id_equals ident" r post])

lemma SimpleDB_delete_first:
  assumes "decode (target d) = Inr a" and "truthy a"
    and "get_prop a (collection s) = Inr (Some (JArr (pre @ r # post)))"
    and "\<forall>e\<in>set pre. id_equals ident e = Inr False"
    and "id_equals ident r = Inr True"
    and "w = JObj (AList.update (collection s) (JArr (pre @ post)) (own_props a))"
  shows "SimpleDB_delete s ident d =
           (Inr True, d\<lparr>target := Contents (Encoding w),
                         log := log d @ [ReadFile, WriterWrite (Encoding w)]\<rparr>)"
  using assms
  by (simp add: op_defs io_defs Let_def splice1_first
        array_findIndex_first [of pre "id_equals ident" r post])

lemma AsyncJSONFileBasedDB_delete_first:
  assumes "decode (target d) = Inr a" and "truthy a"
    and "get_prop a (collection s) = Inr (Some (JArr (pre @ r # post)))"
    and "\<forall>e\<in>set pre. id_equals ident e = Inr False"
    and "id_equals ident r = Inr True"
    and "w = JObj (AList.update (collection s) (JArr (pre @ post)) (own_props a))"
  shows "AsyncJSONFileBasedDB_delete s ident d =
           (Inr True, d\<lparr>target := Contents (Encoding w),
                         log := log d @ [ReadFile, ReadFile, WriterWrite (Encoding w)]\<rparr>)"
  using assms
  by (simp add: op_defs io_defs Let_def splice1_first
        array_findIndex_first [of pre "id_equals ident" r post])

lemma getByID_first:
  assumes "decode (target d) = Inr a" and "truthy a"
    and "get_prop a (collection s) = Inr (Some (JArr (pre @ r # post)))"
    and "\<forall>e\<in>set pre. id_equals ident e = Inr False"
    and "id_equals ident r = Inr True"
  shows "fst (SimpleDB_getByID s ident d) = Inr (Some r)"
    and "fst (AsyncJSONFileBasedDB_getByID s ident d) = Inr (Some r)"
  using assms
  by (simp_all add: op_defs io_defs array_find_first [of pre "id_equals ident" r post])

lemma getAll_holding:
  assumes "target d = Contents (Encoding (JObj (AList.update (collection s) (JArr ys) kvs)))"
  shows "fst (SimpleDB_getAll s d) = Inr (JArr ys)"
    and "fst (AsyncJSONFileBasedDB_getAll s d) = Inr (JArr ys)"
  using assms by (simp_all add: op_defs io_defs update_conv')

lemma getAll_arr:
  assumes "decode (target d) = Inr a" and "truthy a"
    and "get_prop a (collection s) = Inr (Some (JArr ys))"
  shows "fst (SimpleDB_getAll s d) = Inr (JArr ys)"
    and "fst (AsyncJSONFileBasedDB_getAll s d) = Inr (JArr ys)"
  using assms by (simp_all add: op_defs io_defs)

lemma getByID_none:
  assumes "target d = Contents (Encoding (JObj (AList.update (collection s) (JArr ys) kvs)))"
    and "\<forall>e\<in>set ys. id_equals ident e = Inr False"
  shows "fst (SimpleDB_getByID s ident d) = Inr None"
    and "fst (AsyncJSONFileBasedDB_getByID s ident d) = Inr None"
  using assms by (simp_all add: op_defs io_defs update_conv' array_find_none)

text \<open>
An update or a delete that went through found a first match.
\<close>

lemma SimpleDB_update_found:
  assumes "SimpleDB_update s ident p d = (Inr u, d')" and "u \<noteq> JNull"
  shows "\<exists>a pre r post. decode (target d) = Inr a \<and> truthy a
           \<and> get_prop a (collection s) = Inr (Some (JArr (pre @ r # post)))
           \<and> (\<forall>e\<in>set pre. id_equals ident e = Inr False) \<and> id_equals ident r = Inr True"
  using assms
  by (auto simp: op_defs io_defs Let_def map_sum_Inr_iff undefined_to_null_arr
           split: sum.splits option.splits json.splits if_splits
           dest!: array_findIndex_found) blast+

lemma AsyncJSONFileBasedDB_update_found:
  assumes "AsyncJSONFileBasedDB_update s ident p d = (Inr u, d')" and "u \<noteq> JNull"
  shows "\<exists>a pre r post. decode (target d) = Inr a \<and> truthy a
           \<and> get_prop a (collection s) = Inr (Some (JArr (pre @ r # post)))
           \<and> (\<forall>e\<in>set pre. id_equals ident e = Inr False) \<and> id_equals ident r = Inr True"
  using assms
  by (auto simp: op_defs io_defs Let_def map_sum_Inr_iff undefined_to_null_arr
           split: sum.splits option.splits json.splits if_splits
           dest!: array_findIndex_found)

section \<open>Reads and writes of a mutation\<close>






section \<open>Duplicate ids\<close>

text \<open>
  Claim C5. Let the target collection be \<open>pre @ r # post\<close>, where \<open>r\<close> has the id asked
  for and no record of \<open>pre\<close> has it; \<open>post\<close> may hold further records with that same
  id. In both variants \<^verbatim>\<open>getByID\<close> returns \<open>r\<close>, \<^verbatim>\<open>update\<close> replaces \<open>r\<close> by the
  merged record and leaves \<open>pre\<close> and \<open>post\<close> as they are, and \<^verbatim>\<open>delete\<close> removes
  \<open>r\<close> and leaves \<open>pre\<close> and \<open>post\<close> as they are.
\<close>

theorem first_match_only:
  assumes "target d = Contents (Encoding (JObj kvs))"
    and "map_of kvs (collection s) = Some (JArr (pre @ r # post))"
    and "\<forall>e\<in>set pre. id_equals ident e = Inr False"
    and "id_equals ident r = Inr True"
    and "u = JObj (assign_props (own_props r) (own_props p))"
  shows "fst (SimpleDB_getByID s ident d) = Inr (Some r)
       \<and> fst (SimpleDB_update s ident p d) = Inr u
       \<and> fst (SimpleDB_getAll s (snd (SimpleDB_update s ident p d))) = Inr (JArr (pre @ u # post))
       \<and> fst (SimpleDB_delete s ident d) = Inr True
       \<and> fst (SimpleDB_getAll s (snd (SimpleDB_delete s ident d))) = Inr (JArr (pre @ post))
       \<and> fst (AsyncJSONFileBasedDB_getByID s ident d) = Inr (Some r)
       \<and> fst (AsyncJSONFileBasedDB_update s ident p d) = Inr u
       \<and> fst (AsyncJSONFileBasedDB_getAll s (snd (AsyncJSONFileBasedDB_update s ident p d)))
           = Inr (JArr (pre @ u # post))
       \<and> fst (AsyncJSONFileBasedDB_delete s ident d) = Inr True
       \<and> fst (AsyncJSONFileBasedDB_getAll s (snd (AsyncJSONFileBasedDB_delete s ident d)))
           = Inr (JArr (pre @ post))"
proof -
  have dec: "decode (target d) = Inr (JObj kvs)" and tr: "truthy (JObj kvs)"
    and gp: "get_prop (JObj kvs) (collection s) = Inr (Some (JArr (pre @ r # post)))"
    using assms(1,2) by simp_all
  note first = dec tr gp assms(3,4)
  have "fst (SimpleDB_getByID s ident d) = Inr (Some r)"
    and "fst (AsyncJSONFileBasedDB_getByID s ident d) = Inr (Some r)"
    using getByID_first [OF first] by simp_all
  moreover have "fst (SimpleDB_update s ident p d) = Inr u"
    and "fst (SimpleDB_getAll s (snd (SimpleDB_update s ident p d))) = Inr (JArr (pre @ u # post))"
    using SimpleDB_update_first [OF first assms(5) refl]
    by (simp_all add: getAll_holding)
  moreover have "fst (AsyncJSONFileBasedDB_update s ident p d) = Inr u"
    and "fst (AsyncJSONFileBasedDB_getAll s (snd (AsyncJSONFileBasedDB_update s ident p d)))
           = Inr (JArr (pre @ u # post))"
    using AsyncJSONFileBasedDB_update_first [OF first assms(5) refl]
    by (simp_all add: getAll_holding)
  moreover have "fst (SimpleDB_delete s ident d) = Inr True"
    and "fst (SimpleDB_getAll s (snd (SimpleDB_delete s ident d))) = Inr (JArr (pre @ post))"
    using SimpleDB_delete_first [OF first refl]
    by (simp_all add: getAll_holding)
  moreover have "fst (AsyncJSONFileBasedDB_delete s ident d) = Inr True"
    and "fst (AsyncJSONFileBasedDB_getAll s (snd (AsyncJSONFileBasedDB_delete s ident d)))
           = Inr (JArr (pre @ post))"
    using AsyncJSONFileBasedDB_delete_first [OF first refl]
    by (simp_all add: getAll_holding)
  ultimately show ?thesis by simp
qed

theorem first_match_only_witness:
  "fst (SimpleDB_getByID \<lparr>collection = ''users''\<rparr> ''1''
     \<lparr>target = Contents (Encoding (JObj [(''users'',
         JArr [JObj [(''id'', JStr ''2''), (''name'', JStr ''a'')],
               JObj [(''id'', JStr ''1''), (''name'', JStr ''b'')],
               JObj [(''id'', JStr ''1''), (''name'', JStr ''c'')]])])), log = []\<rparr>)
     = Inr (Some (JObj [(''id'', JStr ''1''), (''name'', JStr ''b'')]))
   \<and> fst (SimpleDB_getAll \<lparr>collection = ''users''\<rparr>
       (snd (SimpleDB_update \<lparr>collection = ''users''\<rparr> ''1'' (JObj [(''name'', JStr ''z'')])
     \<lparr>target = Contents (Encoding (JObj [(''users'',
         JArr [JObj [(''id'', JStr ''2''), (''name'', JStr ''a'')],
               JObj [(''id'', JStr ''1''), (''name'', JStr ''b'')],
               JObj [(''id'', JStr ''1''), (''name'', JStr ''c'')]])])), log = []\<rparr>)))
     = Inr (JArr [JObj [(''id'', JStr ''2''), (''name'', JStr ''a'')],
                  JObj [(''id'', JStr ''1''), (''name'', JStr ''z'')],
                  JObj [(''id'', JStr ''1''), (''name'', JStr ''c'')]])
   \<and> fst (AsyncJSONFileBasedDB_getAll \<lparr>collection = ''users''\<rparr>
       (snd (AsyncJSONFileBasedDB_delete \<lparr>collection = ''users''\<rparr> ''1''
     \<lparr>target = Contents (Encoding (JObj [(''users'',
         JArr [JObj [(''id'', JStr ''2''), (''name'', JStr ''a'')],
               JObj [(''id'', JStr ''1''), (''name'', JStr ''b'')],
               JObj [(''id'', JStr ''1''), (''name'', JStr ''c'')]])])), log = []\<rparr>)))
     = Inr (JArr [JObj [(''id'', JStr ''2''), (''name'', JStr ''a'')],
                  JObj [(''id'', JStr ''1''), (''name'', JStr ''c'')]])"
  using first_match_only
    [of "\<lparr>target = Contents (Encoding (JObj [(''users'',
         JArr [JObj [(''id'', JStr ''2''), (''name'', JStr ''a'')],
               JObj [(''id'', JStr ''1''), (''name'', JStr ''b'')],
               JObj [(''id'', JStr ''1''), (''name'', JStr ''c'')]])])), log = []\<rparr>"
        "[(''users'',
         JArr [JObj [(''id'', JStr ''2''), (''name'', JStr ''a'')],
               JObj [(''id'', JStr ''1''), (''name'', JStr ''b'')],
               JObj [(''id'', JStr ''1''), (''name'', JStr ''c'')]])]"
        "\<lparr>collection = ''users''\<rparr>"
        "[JObj [(''id'', JStr ''2''), (''name'', JStr ''a'')]]"
        "JObj [(''id'', JStr ''1''), (''name'', JStr ''b'')]"
        "[JObj [(''id'', JStr ''1''), (''name'', JStr ''c'')]]"
        "''1''"
        "JObj [(''id'', JStr ''1''), (''name'', JStr ''z'')]"
        "JObj [(''name'', JStr ''z'')]"]
  by (simp add: id_equals_def assign_props_def)

section \<open>Update and the id\<close>

text \<open>
  Claim C2 says that \<^verbatim>\<open>update\<close> never alters the id, even when the patch carries one.
  The merge \<^verbatim>\<open>{...record, ...updatedEntity}\<close> copies every property of the patch: a patch
  \<^verbatim>\<open>{id: "2"}\<close> applied to the record with id \<^verbatim>\<open>"1"\<close> gives a record with id
  \<^verbatim>\<open>"2"\<close>, returned and stored.
\<close>

theorem update_overwrites_id_counterexample:
  "fst (SimpleDB_getAll \<lparr>collection = ''users''\<rparr>
          \<lparr>target = Contents (Encoding (JObj [(''users'',
             JArr [JObj [(''id'', JStr ''1''), (''name'', JStr ''b'')]])])), log = []\<rparr>)
     = Inr (JArr [JObj [(''id'', JStr ''1''), (''name'', JStr ''b'')]])
   \<and> fst (SimpleDB_update \<lparr>collection = ''users''\<rparr> ''1'' (JObj [(''id'', JStr ''2'')])
          \<lparr>target = Contents (Encoding (JObj [(''users'',
             JArr [JObj [(''id'', JStr ''1''), (''name'', JStr ''b'')]])])), log = []\<rparr>)
     = Inr (JObj [(''id'', JStr ''2''), (''name'', JStr ''b'')])
   \<and> fst (SimpleDB_getAll \<lparr>collection = ''users''\<rparr>
        (snd (SimpleDB_update \<lparr>collection = ''users''\<rparr> ''1'' (JObj [(''id'', JStr ''2'')])
          \<lparr>target = Contents (Encoding (JObj [(''users'',
             JArr [JObj [(''id'', JStr ''1''), (''name'', JStr ''b'')]])])), log = []\<rparr>)))
     = Inr (JArr [JObj [(''id'', JStr ''2''), (''name'', JStr ''b'')]])"
  by (simp add: op_defs io_defs Let_def array_findIndex_def id_equals_def assign_props_def)

lemma SimpleDB_update_same_id:
  assumes "map_of (own_props p) ''id'' = None"
    and "SimpleDB_update s ident p d = (Inr u, d')" and "u \<noteq> JNull"
  shows "\<exists>pre r post.
           fst (SimpleDB_getAll s d) = Inr (JArr (pre @ r # post))
         \<and> fst (SimpleDB_getAll s d') = Inr (JArr (pre @ u # post))
         \<and> get_prop r ''id'' = Inr (Some (JStr ident))
         \<and> get_prop u ''id'' = Inr (Some (JStr ident))"
proof -
  from SimpleDB_update_found [OF assms(2,3)] obtain a pre r post where
    first: "decode (target d) = Inr a" "truthy a"
      "get_prop a (collection s) = Inr (Some (JArr (pre @ r # post)))"
      "\<forall>e\<in>set pre. id_equals ident e = Inr False" "id_equals ident r = Inr True"
    by blast
  from SimpleDB_update_first [OF first refl refl, of p] assms(2)
  have u: "u = JObj (assign_props (own_props r) (own_props p))"
    and d': "target d' = Contents (Encoding
               (JObj (AList.update (collection s) (JArr (pre @ u # post)) (own_props a))))"
    by auto
  have "fst (SimpleDB_getAll s d) = Inr (JArr (pre @ r # post))"
    using getAll_arr(1) [OF first(1-3)] .
  moreover have "fst (SimpleDB_getAll s d') = Inr (JArr (pre @ u # post))"
    using getAll_holding(1) [OF d'] .
  moreover have "get_prop r ''id'' = Inr (Some (JStr ident))"
    using first(5) by (simp add: id_equals_True)
  moreover have "get_prop u ''id'' = Inr (Some (JStr ident))"
    unfolding u using merged_id [OF assms(1) first(5)] .
  ultimately show ?thesis by blast
qed

lemma AsyncJSONFileBasedDB_update_same_id:
  assumes "map_of (own_props p) ''id'' = None"
    and "AsyncJSONFileBasedDB_update s ident p d = (Inr u, d')" and "u \<noteq> JNull"
  shows "\<exists>pre r post.
           fst (AsyncJSONFileBasedDB_getAll s d) = Inr (JArr (pre @ r # post))
         \<and> fst (AsyncJSONFileBasedDB_getAll s d') = Inr (JArr (pre @ u # post))
         \<and> get_prop r ''id'' = Inr (Some (JStr ident))
         \<and> get_prop u ''id'' = Inr (Some (JStr ident))"
proof -
  from AsyncJSONFileBasedDB_update_found [OF assms(2,3)] obtain a pre r post where
    first: "decode (target d) = Inr a" "truthy a"
      "get_prop a (collection s) = Inr (Some (JArr (pre @ r # post)))"
      "\<forall>e\<in>set pre. id_equals ident e = Inr False" "id_equals ident r = Inr True"
    by blast
  from AsyncJSONFileBasedDB_update_first [OF first refl refl, of p] assms(2)
  have u: "u = JObj (assign_props (own_props r) (own_props p))"
    and d': "target d' = Contents (Encoding
               (JObj (AList.update (collection s) (JArr (pre @ u # post)) (own_props a))))"
    by auto
  have "fst (AsyncJSONFileBasedDB_getAll s d) = Inr (JArr (pre @ r # post))"
    using getAll_arr(2) [OF first(1-3)] .
  moreover have "fst (AsyncJSONFileBasedDB_getAll s d') = Inr (JArr (pre @ u # post))"
    using getAll_holding(2) [OF d'] .
  moreover have "get_prop r ''id'' = Inr (Some (JStr ident))"
    using first(5) by (simp add: id_equals_True)
  moreover have "get_prop u ''id'' = Inr (Some (JStr ident))"
    unfolding u using merged_id [OF assms(1) first(5)] .
  ultimately show ?thesis by blast
qed

text \<open>
  Claim C2, amended. For a patch without an \<^verbatim>\<open>id\<close> property, as the parameter type
  \<^verbatim>\<open>Partial<Omit<T, "id">>\<close> requires, the record that \<^verbatim>\<open>update\<close> returns and stores
  in place of the record it found has the id of that record, in both variants.
\<close>

theorem update_keeps_id:
  assumes "map_of (own_props p) ''id'' = None"
  shows "(\<forall>u d'. SimpleDB_update s ident p d = (Inr u, d') \<and> u \<noteq> JNull \<longrightarrow>
            (\<exists>pre r post.
               fst (SimpleDB_getAll s d) = Inr (JArr (pre @ r # post))
             \<and> fst (SimpleDB_getAll s d') = Inr (JArr (pre @ u # post))
             \<and> get_prop r ''id'' = Inr (Some (JStr ident))
             \<and> get_prop u ''id'' = Inr (Some (JStr ident))))
       \<and> (\<forall>u d'. AsyncJSONFileBasedDB_update s ident p d = (Inr u, d') \<and> u \<noteq> JNull \<longrightarrow>
            (\<exists>pre r post.
               fst (AsyncJSONFileBasedDB_getAll s d) = Inr (JArr (pre @ r # post))
             \<and> fst (AsyncJSONFileBasedDB_getAll s d') = Inr (JArr (pre @ u # post))
             \<and> get_prop r ''id'' = Inr (Some (JStr ident))
             \<and> get_prop u ''id'' = Inr (Some (JStr ident))))"
  using SimpleDB_update_same_id [OF assms] AsyncJSONFileBasedDB_update_same_id [OF assms]
  by blast

theorem update_keeps_id_witness:
  "map_of (own_props (JObj [(''name'', JStr ''z'')])) ''id'' = None
   \<and> SimpleDB_update \<lparr>collection = ''users''\<rparr> ''1'' (JObj [(''name'', JStr ''z'')])
        \<lparr>target = Contents (Encoding (JObj [(''users'',
           JArr [JObj [(''id'', JStr ''1''), (''name'', JStr ''b'')]])])), log = []\<rparr>
      = (Inr (JObj [(''id'', JStr ''1''), (''name'', JStr ''z'')]),
         \<lparr>target = Contents (Encoding (JObj [(''users'',
            JArr [JObj [(''id'', JStr ''1''), (''name'', JStr ''z'')]])])),
          log = [ReadFile, WriterWrite (Encoding (JObj [(''users'',
            JArr [JObj [(''id'', JStr ''1''), (''name'', JStr ''z'')]])]))]\<rparr>)
   \<and> get_prop (JObj [(''id'', JStr ''1''), (''name'', JStr ''z'')]) ''id''
      = Inr (Some (JStr ''1''))"
proof -
  let ?s = "\<lparr>collection = ''users''\<rparr>"
  let ?p = "JObj [(''name'', JStr ''z'')]"
  let ?d = "\<lparr>target = Contents (Encoding (JObj [(''users'',
           JArr [JObj [(''id'', JStr ''1''), (''name'', JStr ''b'')]])])), log = []\<rparr>"
  let ?u = "JObj [(''id'', JStr ''1''), (''name'', JStr ''z'')]"
  let ?d' = "\<lparr>target = Contents (Encoding (JObj [(''users'', JArr [?u])])),
          log = [ReadFile, WriterWrite (Encoding (JObj [(''users'', JArr [?u])]))]\<rparr>"
  have h1: "map_of (own_props ?p) ''id'' = None" by simp
  have h2: "SimpleDB_update ?s ''1'' ?p ?d = (Inr ?u, ?d')"
    by (simp add: op_defs io_defs Let_def array_findIndex_def id_equals_def assign_props_def)
  have h3: "?u \<noteq> JNull" by simp
  from update_keeps_id [OF h1, of ?s "''1''" ?d] h2 h3
  have "\<exists>pre r post.
               fst (SimpleDB_getAll ?s ?d) = Inr (JArr (pre @ r # post))
             \<and> fst (SimpleDB_getAll ?s ?d') = Inr (JArr (pre @ ?u # post))
             \<and> get_prop r ''id'' = Inr (Some (JStr ''1''))
             \<and> get_prop ?u ''id'' = Inr (Some (JStr ''1''))"
    by blast
  then have "get_prop ?u ''id'' = Inr (Some (JStr ''1''))" by blast
  with h1 h2 show ?thesis by blast
qed

section \<open>Delete\<close>

text \<open>
  Claim C3 says that \<^verbatim>\<open>getByID(id)\<close> after \<^verbatim>\<open>delete(id)\<close> returns not-found for every
  stored document. The store does not keep ids unique and \<^verbatim>\<open>delete\<close> removes the first
  match only: with two records of id \<^verbatim>\<open>"1"\<close>, \<^verbatim>\<open>getByID("1")\<close> after the delete
  returns the second.
\<close>

theorem delete_leaves_duplicate_counterexample:
  "fst (SimpleDB_delete \<lparr>collection = ''users''\<rparr> ''1''
          \<lparr>target = Contents (Encoding (JObj [(''users'',
             JArr [JObj [(''id'', JStr ''1''), (''name'', JStr ''b'')],
                   JObj [(''id'', JStr ''1''), (''name'', JStr ''c'')]])])), log = []\<rparr>)
     = Inr True
   \<and> fst (SimpleDB_getByID \<lparr>collection = ''users''\<rparr> ''1''
        (snd (SimpleDB_delete \<lparr>collection = ''users''\<rparr> ''1''
          \<lparr>target = Contents (Encoding (JObj [(''users'',
             JArr [JObj [(''id'', JStr ''1''), (''name'', JStr ''b'')],
                   JObj [(''id'', JStr ''1''), (''name'', JStr ''c'')]])])), log = []\<rparr>)))
     = Inr (Some (JObj [(''id'', JStr ''1''), (''name'', JStr ''c'')]))"
  by (simp add: op_defs io_defs Let_def array_findIndex_def id_equals_def splice1_def)

text \<open>
  Claim C3, amended. Let the id be present in the target collection: the collection is
  \<open>pre @ r # post\<close> with \<open>r\<close> the first record of that id. In both variants
  \<^verbatim>\<open>delete(id)\<close> returns \<^verbatim>\<open>true\<close> and \<^verbatim>\<open>getAll\<close> afterwards returns
  \<open>pre @ post\<close>: one record shorter, the others in their order. If no other record has
  that id, \<^verbatim>\<open>getByID(id)\<close> afterwards returns \<^verbatim>\<open>undefined\<close>.
\<close>

theorem delete_removes_first_match:
  assumes "target d = Contents (Encoding (JObj kvs))"
    and "map_of kvs (collection s) = Some (JArr (pre @ r # post))"
    and "\<forall>e\<in>set pre. id_equals ident e = Inr False"
    and "id_equals ident r = Inr True"
  shows "fst (SimpleDB_getAll s d) = Inr (JArr (pre @ r # post))
       \<and> fst (SimpleDB_delete s ident d) = Inr True
       \<and> fst (SimpleDB_getAll s (snd (SimpleDB_delete s ident d))) = Inr (JArr (pre @ post))
       \<and> ((\<forall>e\<in>set post. id_equals ident e = Inr False) \<longrightarrow>
            fst (SimpleDB_getByID s ident (snd (SimpleDB_delete s ident d))) = Inr None)
       \<and> fst (AsyncJSONFileBasedDB_getAll s d) = Inr (JArr (pre @ r # post))
       \<and> fst (AsyncJSONFileBasedDB_delete s ident d) = Inr True
       \<and> fst (AsyncJSONFileBasedDB_getAll s (snd (AsyncJSONFileBasedDB_delete s ident d)))
           = Inr (JArr (pre @ post))
       \<and> ((\<forall>e\<in>set post. id_equals ident e = Inr False) \<longrightarrow>
            fst (AsyncJSONFileBasedDB_getByID s ident
                   (snd (AsyncJSONFileBasedDB_delete s ident d))) = Inr None)"
proof -
  have dec: "decode (target d) = Inr (JObj kvs)" and tr: "truthy (JObj kvs)"
    and gp: "get_prop (JObj kvs) (collection s) = Inr (Some (JArr (pre @ r # post)))"
    using assms(1,2) by simp_all
  note first = dec tr gp assms(3,4)
  from SimpleDB_delete_first [OF first refl]
  have r1: "fst (SimpleDB_delete s ident d) = Inr True"
    and t1: "target (snd (SimpleDB_delete s ident d)) = Contents (Encoding
               (JObj (AList.update (collection s) (JArr (pre @ post)) (own_props (JObj kvs)))))"
    by simp_all
  from AsyncJSONFileBasedDB_delete_first [OF first refl]
  have r2: "fst (AsyncJSONFileBasedDB_delete s ident d) = Inr True"
    and t2: "target (snd (AsyncJSONFileBasedDB_delete s ident d)) = Contents (Encoding
               (JObj (AList.update (collection s) (JArr (pre @ post)) (own_props (JObj kvs)))))"
    by simp_all
  have before: "fst (SimpleDB_getAll s d) = Inr (JArr (pre @ r # post))"
    "fst (AsyncJSONFileBasedDB_getAll s d) = Inr (JArr (pre @ r # post))"
    using getAll_arr [OF dec tr gp] by simp_all
  have after1: "fst (SimpleDB_getAll s (snd (SimpleDB_delete s ident d))) = Inr (JArr (pre @ post))"
    using getAll_holding(1) [OF t1] .
  have after2: "fst (AsyncJSONFileBasedDB_getAll s (snd (AsyncJSONFileBasedDB_delete s ident d)))
           = Inr (JArr (pre @ post))"
    using getAll_holding(2) [OF t2] .
  have gone1: "fst (SimpleDB_getByID s ident (snd (SimpleDB_delete s ident d))) = Inr None"
    if "\<forall>e\<in>set post. id_equals ident e = Inr False"
    using getByID_none(1) [OF t1] assms(3) that by auto
  have gone2: "fst (AsyncJSONFileBasedDB_getByID s ident
                   (snd (AsyncJSONFileBasedDB_delete s ident d))) = Inr None"
    if "\<forall>e\<in>set post. id_equals ident e = Inr False"
    using getByID_none(2) [OF t2] assms(3) that by auto
  from before r1 after1 gone1 r2 after2 gone2 show ?thesis by blast
qed

theorem delete_removes_first_match_witness:
  "fst (SimpleDB_delete \<lparr>collection = ''users''\<rparr> ''1''
     \<lparr>target = Contents (Encoding (JObj [(''users'',
         JArr [JObj [(''id'', JStr ''2''), (''name'', JStr ''a'')],
               JObj [(''id'', JStr ''1''), (''name'', JStr ''b'')],
               JObj [(''id'', JStr ''3''), (''name'', JStr ''c'')]])])), log = []\<rparr>) = Inr True
   \<and> fst (SimpleDB_getAll \<lparr>collection = ''users''\<rparr>
       (snd (SimpleDB_delete \<lparr>collection = ''users''\<rparr> ''1''
     \<lparr>target = Contents (Encoding (JObj [(''users'',
         JArr [JObj [(''id'', JStr ''2''), (''name'', JStr ''a'')],
               JObj [(''id'', JStr ''1''), (''name'', JStr ''b'')],
               JObj [(''id'', JStr ''3''), (''name'', JStr ''c'')]])])), log = []\<rparr>)))
     = Inr (JArr [JObj [(''id'', JStr ''2''), (''name'', JStr ''a'')],
                  JObj [(''id'', JStr ''3''), (''name'', JStr ''c'')]])
   \<and> fst (SimpleDB_getByID \<lparr>collection = ''users''\<rparr> ''1''
       (snd (SimpleDB_delete \<lparr>collection = ''users''\<rparr> ''1''
     \<lparr>target = Contents (Encoding (JObj [(''users'',
         JArr [JObj [(''id'', JStr ''2''), (''name'', JStr ''a'')],
               JObj [(''id'', JStr ''1''), (''name'', JStr ''b'')],
               JObj [(''id'', JStr ''3''), (''name'', JStr ''c'')]])])), log = []\<rparr>)))
     = Inr None
   \<and> fst (AsyncJSONFileBasedDB_getByID \<lparr>collection = ''users''\<rparr> ''1''
       (snd (AsyncJSONFileBasedDB_delete \<lparr>collection = ''users''\<rparr> ''1''
     \<lparr>target = Contents (Encoding (JObj [(''users'',
         JArr [JObj [(''id'', JStr ''2''), (''name'', JStr ''a'')],
               JObj [(''id'', JStr ''1''), (''name'', JStr ''b'')],
               JObj [(''id'', JStr ''3''), (''name'', JStr ''c'')]])])), log = []\<rparr>)))
     = Inr None"
  using delete_removes_first_match
    [of "\<lparr>target = Contents (Encoding (JObj [(''users'',
         JArr [JObj [(''id'', JStr ''2''), (''name'', JStr ''a'')],
               JObj [(''id'', JStr ''1''), (''name'', JStr ''b'')],
               JObj [(''id'', JStr ''3''), (''name'', JStr ''c'')]])])), log = []\<rparr>"
        "[(''users'',
         JArr [JObj [(''id'', JStr ''2''), (''name'', JStr ''a'')],
               JObj [(''id'', JStr ''1''), (''name'', JStr ''b'')],
               JObj [(''id'', JStr ''3''), (''name'', JStr ''c'')]])]"
        "\<lparr>collection = ''users''\<rparr>"
        "[JObj [(''id'', JStr ''2''), (''name'', JStr ''a'')]]"
        "JObj [(''id'', JStr ''1''), (''name'', JStr ''b'')]"
        "[JObj [(''id'', JStr ''3''), (''name'', JStr ''c'')]]"
        "''1''"]
  by (simp add: id_equals_def)

section \<open>Removing a collection\<close>

text \<open>
  Claim C6. \<^verbatim>\<open>deleteCollection\<close> returns \<^verbatim>\<open>false\<close> after one read and no write when
  the file is missing. When the file holds a document, it writes the document without
  the key of the collection and returns \<^verbatim>\<open>true\<close>, whether or not the key was there; every
  other key keeps its value.
\<close>

theorem deleteCollection_removes_key:
  "(target d = Rejects ''ENOENT'' \<longrightarrow>
      SimpleDB_deleteCollection s d = (Inr False, d\<lparr>log := log d @ [ReadFile]\<rparr>))
   \<and> (target d = Contents (Encoding (JObj kvs)) \<longrightarrow>
        SimpleDB_deleteCollection s d =
          (Inr True,
           d\<lparr>target := Contents (Encoding (JObj (AList.delete (collection s) kvs))),
              log := log d @ [ReadFile,
                WriterWrite (Encoding (JObj (AList.delete (collection s) kvs)))]\<rparr>)
        \<and> get_prop (JObj (AList.delete (collection s) kvs)) (collection s) = Inr None
        \<and> (\<forall>k. k \<noteq> collection s \<longrightarrow>
              get_prop (JObj (AList.delete (collection s) kvs)) k = get_prop (JObj kvs) k))"
proof (intro conjI impI)
  assume "target d = Rejects ''ENOENT''"
  then show "SimpleDB_deleteCollection s d = (Inr False, d\<lparr>log := log d @ [ReadFile]\<rparr>)"
    by (simp add: op_defs io_defs)
next
  assume "target d = Contents (Encoding (JObj kvs))"
  then have "decode (target d) = Inr (JObj kvs)" by simp
  then show "SimpleDB_deleteCollection s d =
          (Inr True,
           d\<lparr>target := Contents (Encoding (JObj (AList.delete (collection s) kvs))),
              log := log d @ [ReadFile,
                WriterWrite (Encoding (JObj (AList.delete (collection s) kvs)))]\<rparr>)"
    by (simp add: op_defs io_defs)
next
  show "get_prop (JObj (AList.delete (collection s) kvs)) (collection s) = Inr None"
    by (simp add: delete_conv')
next
  show "\<forall>k. k \<noteq> collection s \<longrightarrow>
              get_prop (JObj (AList.delete (collection s) kvs)) k = get_prop (JObj kvs) k"
    by (simp add: delete_conv')
qed

theorem deleteCollection_removes_key_witness:
  "SimpleDB_deleteCollection \<lparr>collection = ''users''\<rparr>
     \<lparr>target = Rejects ''ENOENT'', log = []\<rparr>
   = (Inr False, \<lparr>target = Rejects ''ENOENT'', log = [ReadFile]\<rparr>)
   \<and> SimpleDB_deleteCollection \<lparr>collection = ''users''\<rparr>
     \<lparr>target = Contents (Encoding (JObj [(''posts'', JArr [JObj [(''id'', JStr ''p'')]])])),
      log = []\<rparr>
   = (Inr True,
      \<lparr>target = Contents (Encoding (JObj [(''posts'', JArr [JObj [(''id'', JStr ''p'')]])])),
       log = [ReadFile,
         WriterWrite (Encoding (JObj [(''posts'', JArr [JObj [(''id'', JStr ''p'')]])]))]\<rparr>)
   \<and> fst (SimpleDB_deleteCollection \<lparr>collection = ''users''\<rparr>
     \<lparr>target = Contents (Encoding (JObj [(''users'', JArr [JObj [(''id'', JStr ''1'')]]),
        (''posts'', JArr [JObj [(''id'', JStr ''p'')]])])), log = []\<rparr>) = Inr True
   \<and> target (snd (SimpleDB_deleteCollection \<lparr>collection = ''users''\<rparr>
     \<lparr>target = Contents (Encoding (JObj [(''users'', JArr [JObj [(''id'', JStr ''1'')]]),
        (''posts'', JArr [JObj [(''id'', JStr ''p'')]])])), log = []\<rparr>))
     = Contents (Encoding (JObj [(''posts'', JArr [JObj [(''id'', JStr ''p'')]])]))"
  using deleteCollection_removes_key
          [of "\<lparr>target = Rejects ''ENOENT'', log = []\<rparr>" "\<lparr>collection = ''users''\<rparr>"]
        deleteCollection_removes_key
          [of "\<lparr>target = Contents (Encoding (JObj [(''posts'', JArr [JObj [(''id'', JStr ''p'')]])])),
                log = []\<rparr>"
              "\<lparr>collection = ''users''\<rparr>"
              "[(''posts'', JArr [JObj [(''id'', JStr ''p'')]])]"]
        deleteCollection_removes_key
          [of "\<lparr>target = Contents (Encoding (JObj [(''users'', JArr [JObj [(''id'', JStr ''1'')]]),
                  (''posts'', JArr [JObj [(''id'', JStr ''p'')]])])), log = []\<rparr>"
              "\<lparr>collection = ''users''\<rparr>"
              "[(''users'', JArr [JObj [(''id'', JStr ''1'')]]),
                (''posts'', JArr [JObj [(''id'', JStr ''p'')]])]"]
  by (simp add: AList.delete_eq)

section \<open>The other collections\<close>

lemma SimpleDB_written:
  assumes "WriterWrite w \<in> set (performed d (snd (SimpleDB_create s ne d)))
         \<or> WriterWrite w \<in> set (performed d (snd (SimpleDB_update s i p d)))
         \<or> WriterWrite w \<in> set (performed d (snd (SimpleDB_delete s i d)))"
  shows "\<exists>a x. decode (target d) = Inr a
           \<and> w = Encoding (JObj (AList.update (collection s) x (own_props a)))"
  using assms
  by (auto simp: op_defs io_defs performed_def Let_def map_sum_Inr_iff
           split: sum.splits option.splits json.splits if_splits)

lemma AsyncJSONFileBasedDB_written:
  assumes "WriterWrite w \<in> set (performed d (snd (AsyncJSONFileBasedDB_create s ne d)))
         \<or> WriterWrite w \<in> set (performed d (snd (AsyncJSONFileBasedDB_update s i p d)))
         \<or> WriterWrite w \<in> set (performed d (snd (AsyncJSONFileBasedDB_delete s i d)))"
  shows "\<exists>a x. decode (target d) = Inr a
           \<and> w = Encoding (JObj (AList.update (collection s) x (own_props a)))"
  using assms
  by (auto simp: op_defs io_defs performed_def Let_def falsy_own_props map_sum_Inr_iff
           split: sum.splits option.splits json.splits if_splits)

text \<open>
  Claim C10. Let \<open>a\<close> be the document read: the object in the file, or the empty object
  when the file is missing or holds a falsy value. Every document written by
  \<^verbatim>\<open>create\<close>, \<^verbatim>\<open>update\<close> or \<^verbatim>\<open>delete\<close>, in both variants, gives every key other
  than the target collection the value it has in \<open>a\<close>.
\<close>

theorem writes_keep_other_collections:
  assumes "(target d = Contents (Encoding (JObj kvs)) \<and> a = JObj kvs)
         \<or> (target d = Rejects ''ENOENT'' \<and> a = JObj [])
         \<or> (target d = Contents (Encoding v) \<and> \<not> truthy v \<and> a = JObj [])"
    and "WriterWrite w \<in> set (performed d (snd (SimpleDB_create s ne d)))
       \<or> WriterWrite w \<in> set (performed d (snd (SimpleDB_update s i p d)))
       \<or> WriterWrite w \<in> set (performed d (snd (SimpleDB_delete s i d)))
       \<or> WriterWrite w \<in> set (performed d (snd (AsyncJSONFileBasedDB_create s ne d)))
       \<or> WriterWrite w \<in> set (performed d (snd (AsyncJSONFileBasedDB_update s i p d)))
       \<or> WriterWrite w \<in> set (performed d (snd (AsyncJSONFileBasedDB_delete s i d)))"
  shows "\<exists>doc. w = Encoding doc
           \<and> (\<forall>k. k \<noteq> collection s \<longrightarrow> get_prop doc k = get_prop a k)"
proof -
  from assms(2) obtain a' x where
    h: "decode (target d) = Inr a'"
       "w = Encoding (JObj (AList.update (collection s) x (own_props a')))"
    using SimpleDB_written [of w d s ne i p] AsyncJSONFileBasedDB_written [of w d s ne i p]
    by blast
  from assms(1) h(1) have "own_props a' = own_props a"
    by (auto simp: falsy_own_props)
  with h(2) assms(1) show ?thesis by (auto simp: update_conv')
qed

theorem writes_keep_other_collections_witness:
  "WriterWrite (Encoding (JObj [(''users'', JArr [JObj [(''id'', JStr ''1'')]]),
                               (''posts'', JArr [JObj [(''id'', JStr ''p'')]])]))
     \<in> set (performed
         \<lparr>target = Contents (Encoding (JObj [(''users'', JArr []),
            (''posts'', JArr [JObj [(''id'', JStr ''p'')]])])), log = []\<rparr>
         (snd (SimpleDB_create \<lparr>collection = ''users''\<rparr> (JObj [(''id'', JStr ''1'')])
           \<lparr>target = Contents (Encoding (JObj [(''users'', JArr []),
              (''posts'', JArr [JObj [(''id'', JStr ''p'')]])])), log = []\<rparr>)))
   \<and> (\<exists>doc. Encoding (JObj [(''users'', JArr [JObj [(''id'', JStr ''1'')]]),
                               (''posts'', JArr [JObj [(''id'', JStr ''p'')]])]) = Encoding doc
        \<and> (\<forall>k. k \<noteq> ''users'' \<longrightarrow>
              get_prop doc k = get_prop (JObj [(''users'', JArr []),
                (''posts'', JArr [JObj [(''id'', JStr ''p'')]])]) k))"
proof -
  let ?s = "\<lparr>collection = ''users''\<rparr>"
  let ?kvs = "[(''users'', JArr []), (''posts'', JArr [JObj [(''id'', JStr ''p'')]])]"
  let ?d = "\<lparr>target = Contents (Encoding (JObj ?kvs)), log = []\<rparr>"
  let ?w = "Encoding (JObj [(''users'', JArr [JObj [(''id'', JStr ''1'')]]),
                               (''posts'', JArr [JObj [(''id'', JStr ''p'')]])])"
  have h: "WriterWrite ?w \<in> set (performed ?d (snd (SimpleDB_create ?s (JObj [(''id'', JStr ''1'')]) ?d)))"
    by (simp add: op_defs io_defs performed_def)
  have t: "target ?d = Contents (Encoding (JObj ?kvs)) \<and> JObj ?kvs = JObj ?kvs" by simp
  from writes_keep_other_collections [OF disjI1 [OF t] disjI1 [OF h]] h
  show ?thesis by simp
qed

end
